theory Spec2Isabelle
  imports Main "HOL-Library.Word"
begin

section \<open>The camera session of android\_camera.c\<close>

text \<open>
  The program is the JNI glue of an Android camera viewer: a host (Java) object owns, in
  its field \<^verbatim>\<open>native_custom_data\<close>, a pointer to one \<^verbatim>\<open>GstAhc\<close> structure; the
  native methods read that field, mutate the structure and call into GStreamer, GLib,
  the NDK window library, pthreads and back into the host object.

  The embedding keeps the structure as a record, every pointer as an option
  (\<open>None\<close> is \<^verbatim>\<open>NULL\<close>), and every function as a function from the structure to the
  updated structure together with the list of external calls it makes, in program order,
  each with the arguments the source passes.

  Left out are the log lines (\<^verbatim>\<open>GST_DEBUG\<close> and its kin), the lookup of the JNI
  environment of the calling thread (\<^verbatim>\<open>get_jni_env\<close>), and the allocation and freeing
  of temporaries (the message string, the local reference to it, the caps).

  Two threads run the program and nothing in it synchronises them: there is no lock and
  no atomic access anywhere in the file. A serial run (\<open>run\<close>) executes whole functions
  one after the other; a schedule (\<open>seg_run\<close>) lets one thread run between the parts of
  a function of the other, at the two places where a value read by one thread can be
  overtaken by the other: between the test and the body of the readiness check, and
  between the worker's read of the window and its call with it.
\<close>

subsection \<open>Data\<close>

type_synonym jobject = nat
type_synonym element = nat
type_synonym window = nat
type_synonym mainloop = nat
type_synonym jint = "32 word"

text \<open>The values of \<^verbatim>\<open>GstState\<close>, in the order of the enumeration (the first is 0).\<close>

datatype GstState =
    GST_STATE_VOID_PENDING
  | GST_STATE_NULL
  | GST_STATE_READY
  | GST_STATE_PAUSED
  | GST_STATE_PLAYING

text \<open>\<^verbatim>\<open>struct _GstAhc\<close>, field by field.\<close>

record GstAhc =
  app :: "jobject option"
  pipeline :: "element option"
  main_loop :: "mainloop option"
  native_window :: "window option"
  state :: GstState
  ahcsrc :: "element option"
  filter_elem :: "element option"
  vsink :: "element option"
  initialized :: bool

text \<open>The caps built by \<^verbatim>\<open>gst_caps_new_simple\<close>: a media type and two integer fields.\<close>

record caps =
  media_type :: string
  width :: jint
  height :: jint

text \<open>
  The external calls of the program. Instance arguments are the pointers as passed, so a
  call on a stage that does not exist yet shows as a call with \<open>None\<close>.
\<close>

datatype call =
    CallOnError string
  | CallOnStateChanged GstState
  | CallOnGStreamerInitialized
  | ExceptionDescribe
  | ExceptionClear
  | Gst_element_set_state "element option" GstState
  | Gst_video_overlay_set_window_handle "element option" "window option"
  | ANativeWindow_fromSurface jobject
  | ANativeWindow_release "window option"
  | G_object_set_caps "element option" caps
  | G_object_set_wb_mode "element option" jint
  | Gst_photography_set_autofocus "element option" bool
  | G_object_set_rotate_method "element option" jint
  | G_main_context_new
  | Gst_element_factory_make string
  | Gst_pipeline_new string
  | Gst_bin_add_many "element option" "element option list"
  | Gst_element_link_many "element option list"
  | G_signal_connect string
  | G_main_loop_new
  | G_main_loop_unref "mainloop option"
  | G_main_context_unref
  | Gst_object_unref "element option"
  | G_main_loop_quit "mainloop option"
  | NewGlobalRef jobject
  | DeleteGlobalRef "jobject option"
  | Pthread_create
  | Pthread_join
  | G_free

text \<open>
  What the platform answers: the window behind a surface
  (\<^verbatim>\<open>ANativeWindow_fromSurface\<close>, \<open>None\<close> for a surface without one), the elements the
  factories hand out, the main loop, whether a host callback leaves a pending exception,
  and the return code of \<^verbatim>\<open>pthread_create\<close>.
\<close>

record platform =
  window_of :: "jobject \<Rightarrow> window option"
  element_of :: "string \<Rightarrow> element option"
  loop_of :: mainloop
  throws :: "call \<Rightarrow> bool"
  thread_rc :: int

subsection \<open>Bus callbacks and the readiness check\<close>

text \<open>
  \<^verbatim>\<open>on_error\<close>: the message text is built, the host method \<^verbatim>\<open>onError\<close> is called, a
  pending exception is cleared, and last the pipeline is set to \<^verbatim>\<open>GST_STATE_NULL\<close>.
  The arguments \<open>src\<close> and \<open>err\<close> are the name of the message's source and the text of
  the parsed error.
\<close>

definition on_error :: "platform \<Rightarrow> string \<Rightarrow> string \<Rightarrow> GstAhc \<Rightarrow> GstAhc \<times> call list" where
  "on_error P src err ahc =
     (let message_string = ''Error received from element '' @ src @ '': '' @ err in
      (ahc,
       [CallOnError message_string]
       @ (if throws P (CallOnError message_string) then [ExceptionClear] else [])
       @ [Gst_element_set_state (pipeline ahc) GST_STATE_NULL]))"

definition eos_cb :: "GstAhc \<Rightarrow> GstAhc \<times> call list" where
  "eos_cb data = (data, [Gst_element_set_state (pipeline data) GST_STATE_PAUSED])"

text \<open>
  \<^verbatim>\<open>state_changed_cb\<close>: \<open>src\<close> is the object the message comes from; only a message of
  the pipeline itself is recorded and reported.
\<close>

definition state_changed_cb ::
  "platform \<Rightarrow> element option \<Rightarrow> GstState \<Rightarrow> GstState \<Rightarrow> GstState \<Rightarrow> GstAhc \<Rightarrow> GstAhc \<times> call list" where
  "state_changed_cb P src old_state new_state pending_state ahc =
     (if src = pipeline ahc then
        (ahc\<lparr>state := new_state\<rparr>,
         [CallOnStateChanged new_state]
         @ (if throws P (CallOnStateChanged new_state)
            then [ExceptionDescribe, ExceptionClear] else []))
      else (ahc, []))"

definition check_initialization_complete :: "platform \<Rightarrow> GstAhc \<Rightarrow> GstAhc \<times> call list" where
  "check_initialization_complete P data =
     (if \<not> initialized data \<and> native_window data \<noteq> None \<and> main_loop data \<noteq> None then
        (data\<lparr>initialized := True\<rparr>,
         [CallOnGStreamerInitialized]
         @ (if throws P CallOnGStreamerInitialized then [ExceptionClear] else []))
      else (data, []))"

subsection \<open>The worker thread\<close>

text \<open>
  \<^verbatim>\<open>app_function\<close> in its two halves: everything up to the call of
  \<^verbatim>\<open>g_main_loop_run\<close>, and everything after that call has returned.
\<close>

definition app_function_setup :: "platform \<Rightarrow> GstAhc \<Rightarrow> GstAhc \<times> call list" where
  "app_function_setup P ahc0 =
     (let ahc1 = ahc0\<lparr>ahcsrc := element_of P ''ahcsrc''\<rparr>;
          ahc2 = ahc1\<lparr>vsink := element_of P ''glimagesink''\<rparr>;
          ahc3 = ahc2\<lparr>filter_elem := element_of P ''capsfilter''\<rparr>;
          ahc4 = ahc3\<lparr>pipeline := element_of P ''camera-pipeline''\<rparr>;
          ahc5 = ahc4\<lparr>main_loop := Some (loop_of P)\<rparr>;
          (ahc6, notified) = check_initialization_complete P ahc5
      in (ahc6,
          [G_main_context_new,
           Gst_element_factory_make ''ahcsrc'',
           Gst_element_factory_make ''glimagesink'',
           Gst_element_factory_make ''capsfilter'',
           Gst_pipeline_new ''camera-pipeline'',
           Gst_bin_add_many (pipeline ahc4) [ahcsrc ahc4, filter_elem ahc4, vsink ahc4],
           Gst_element_link_many [ahcsrc ahc4, filter_elem ahc4, vsink ahc4]]
          @ (if native_window ahc4 \<noteq> None
             then [Gst_video_overlay_set_window_handle (vsink ahc4) (native_window ahc4)]
             else [])
          @ [G_signal_connect ''message::error'',
             G_signal_connect ''message::eos'',
             G_signal_connect ''message::state-changed'',
             G_main_loop_new]
          @ notified))"

definition app_function_teardown :: "GstAhc \<Rightarrow> GstAhc \<times> call list" where
  "app_function_teardown ahc =
     (ahc\<lparr>main_loop := None\<rparr>,
      [G_main_loop_unref (main_loop ahc),
       G_main_context_unref,
       Gst_element_set_state (pipeline ahc) GST_STATE_NULL,
       Gst_object_unref (vsink ahc),
       Gst_object_unref (filter_elem ahc),
       Gst_object_unref (ahcsrc ahc),
       Gst_object_unref (pipeline ahc)])"

subsection \<open>The native methods\<close>

text \<open>
  Each native method takes the value of the host object's field (\<open>None\<close> when the field
  is null) and returns the field's new value, the structure behind it updated, with the
  calls made. \<^verbatim>\<open>g_malloc0\<close> hands out a structure of zero bytes.
\<close>

definition g_malloc0 :: GstAhc where
  "g_malloc0 =
     \<lparr>app = None, pipeline = None, main_loop = None, native_window = None,
      state = GST_STATE_VOID_PENDING, ahcsrc = None, filter_elem = None, vsink = None,
      initialized = False\<rparr>"

text \<open>\<^verbatim>\<open>gst_native_init\<close> returns nothing and drops the result of \<^verbatim>\<open>pthread_create\<close>.\<close>

definition gst_native_init :: "platform \<Rightarrow> jobject \<Rightarrow> GstAhc option \<times> call list" where
  "gst_native_init P thiz =
     (let data = g_malloc0\<lparr>app := Some thiz\<rparr>;
          rc = thread_rc P
      in (Some data, [NewGlobalRef thiz, Pthread_create]))"

definition gst_native_finalize :: "GstAhc option \<Rightarrow> GstAhc option \<times> call list" where
  "gst_native_finalize field =
     (case field of
        None \<Rightarrow> (None, [])
      | Some data \<Rightarrow>
          (None,
           [G_main_loop_quit (main_loop data),
            Pthread_join,
            DeleteGlobalRef (app data),
            G_free]))"

definition gst_native_play :: "GstAhc option \<Rightarrow> GstAhc option \<times> call list" where
  "gst_native_play field =
     (case field of
        None \<Rightarrow> (None, [])
      | Some data \<Rightarrow> (Some data, [Gst_element_set_state (pipeline data) GST_STATE_PLAYING]))"

definition gst_native_pause :: "GstAhc option \<Rightarrow> GstAhc option \<times> call list" where
  "gst_native_pause field =
     (case field of
        None \<Rightarrow> (None, [])
      | Some data \<Rightarrow> (Some data, [Gst_element_set_state (pipeline data) GST_STATE_PAUSED]))"

definition gst_native_surface_init ::
  "platform \<Rightarrow> jobject \<Rightarrow> GstAhc option \<Rightarrow> GstAhc option \<times> call list" where
  "gst_native_surface_init P surface field =
     (case field of
        None \<Rightarrow> (None, [])
      | Some ahc0 \<Rightarrow>
          (let released =
                 (if native_window ahc0 \<noteq> None
                  then [ANativeWindow_release (native_window ahc0)] else []);
               ahc1 = ahc0\<lparr>native_window := window_of P surface\<rparr>;
               bound =
                 (if vsink ahc1 \<noteq> None
                  then [Gst_video_overlay_set_window_handle (vsink ahc1) (native_window ahc1)]
                  else []);
               (ahc2, notified) = check_initialization_complete P ahc1
           in (Some ahc2,
               released @ [ANativeWindow_fromSurface surface] @ bound @ notified)))"

definition gst_native_surface_finalize :: "GstAhc option \<Rightarrow> GstAhc option \<times> call list" where
  "gst_native_surface_finalize field =
     (case field of
        None \<Rightarrow> (None, [])
      | Some data \<Rightarrow>
          (Some (data\<lparr>native_window := None\<rparr>),
           [ANativeWindow_release (native_window data),
            Gst_video_overlay_set_window_handle (vsink data) None]))"

definition gst_native_change_resolution ::
  "jint \<Rightarrow> jint \<Rightarrow> GstAhc option \<Rightarrow> GstAhc option \<times> call list" where
  "gst_native_change_resolution w h field =
     (case field of
        None \<Rightarrow> (None, [])
      | Some ahc \<Rightarrow>
          (let new_caps = \<lparr>media_type = ''video/x-raw'', width = w, height = h\<rparr>
           in (Some ahc,
               [Gst_element_set_state (pipeline ahc) GST_STATE_READY,
                G_object_set_caps (filter_elem ahc) new_caps,
                Gst_element_set_state (pipeline ahc) GST_STATE_PAUSED])))"

definition gst_native_set_white_balance :: "jint \<Rightarrow> GstAhc option \<Rightarrow> GstAhc option \<times> call list" where
  "gst_native_set_white_balance wb_mode field =
     (case field of
        None \<Rightarrow> (None, [])
      | Some ahc \<Rightarrow> (Some ahc, [G_object_set_wb_mode (ahcsrc ahc) wb_mode]))"

definition gst_native_set_auto_focus :: "bool \<Rightarrow> GstAhc option \<Rightarrow> GstAhc option \<times> call list" where
  "gst_native_set_auto_focus enabled field =
     (case field of
        None \<Rightarrow> (None, [])
      | Some ahc \<Rightarrow> (Some ahc, [Gst_photography_set_autofocus (ahcsrc ahc) enabled]))"

definition gst_native_set_rotate_method :: "jint \<Rightarrow> GstAhc option \<Rightarrow> GstAhc option \<times> call list" where
  "gst_native_set_rotate_method method field =
     (case field of
        None \<Rightarrow> (None, [])
      | Some ahc \<Rightarrow> (Some ahc, [G_object_set_rotate_method (vsink ahc) method]))"

subsection \<open>Host calls, bus messages and runs\<close>

text \<open>The table \<^verbatim>\<open>native_methods\<close>: the calls the host can make on an object.\<close>

datatype native_call =
    NativeFinalize
  | NativePlay
  | NativePause
  | NativeSurfaceInit jobject
  | NativeSurfaceFinalize
  | NativeChangeResolution jint jint
  | NativeSetRotateMethod jint
  | NativeSetWhiteBalance jint
  | NativeSetAutoFocus bool

fun native :: "platform \<Rightarrow> native_call \<Rightarrow> GstAhc option \<Rightarrow> GstAhc option \<times> call list" where
  "native P NativeFinalize field = gst_native_finalize field"
| "native P NativePlay field = gst_native_play field"
| "native P NativePause field = gst_native_pause field"
| "native P (NativeSurfaceInit surface) field = gst_native_surface_init P surface field"
| "native P NativeSurfaceFinalize field = gst_native_surface_finalize field"
| "native P (NativeChangeResolution w h) field = gst_native_change_resolution w h field"
| "native P (NativeSetRotateMethod m) field = gst_native_set_rotate_method m field"
| "native P (NativeSetWhiteBalance m) field = gst_native_set_white_balance m field"
| "native P (NativeSetAutoFocus b) field = gst_native_set_auto_focus b field"

text \<open>
  The three bus signals connected in \<^verbatim>\<open>app_function\<close>, with what the handlers parse
  out of the message.
\<close>

datatype message =
    Error string string
  | Eos
  | State_changed "element option" GstState GstState GstState

fun dispatch :: "platform \<Rightarrow> message \<Rightarrow> GstAhc \<Rightarrow> GstAhc \<times> call list" where
  "dispatch P (Error src err) ahc = on_error P src err ahc"
| "dispatch P Eos ahc = eos_cb ahc"
| "dispatch P (State_changed src old new pending) ahc = state_changed_cb P src old new pending ahc"

text \<open>
  A serial run is a sequence of steps, each one whole function execution: a call of the host, the
  worker thread reaching its main loop, the worker thread handling one bus message, or the
  worker thread leaving its main loop and cleaning up.
  The worker acts on the structure it was started with; once the field is null the
  worker has been joined and takes no step.
\<close>

datatype action = Host native_call | Worker_setup | Bus message | Worker_teardown

fun on_worker :: "(GstAhc \<Rightarrow> GstAhc \<times> call list) \<Rightarrow> GstAhc option \<Rightarrow> GstAhc option \<times> call list" where
  "on_worker f None = (None, [])"
| "on_worker f (Some ahc) = (Some (fst (f ahc)), snd (f ahc))"

fun step :: "platform \<Rightarrow> action \<Rightarrow> GstAhc option \<Rightarrow> GstAhc option \<times> call list" where
  "step P (Host c) field = native P c field"
| "step P Worker_setup field = on_worker (app_function_setup P) field"
| "step P (Bus m) field = on_worker (dispatch P m) field"
| "step P Worker_teardown field = on_worker app_function_teardown field"

fun run :: "platform \<Rightarrow> action list \<Rightarrow> GstAhc option \<Rightarrow> GstAhc option \<times> call list" where
  "run P [] field = (field, [])"
| "run P (x # xs) field =
     (let (field1, calls1) = step P x field;
          (field2, calls2) = run P xs field1
      in (field2, calls1 @ calls2))"

subsection \<open>Functions in parts, and schedules of two threads\<close>

text \<open>
  The readiness check in two parts: the test of line 177, and lines 181 to 186, which
  run when the test has passed.
\<close>

definition check_test :: "GstAhc \<Rightarrow> bool" where
  "check_test data = (\<not> initialized data \<and> native_window data \<noteq> None \<and> main_loop data \<noteq> None)"

definition check_notify :: "platform \<Rightarrow> GstAhc \<Rightarrow> GstAhc \<times> call list" where
  "check_notify P data =
     (data\<lparr>initialized := True\<rparr>,
      [CallOnGStreamerInitialized]
      @ (if throws P CallOnGStreamerInitialized then [ExceptionClear] else []))"

text \<open>\<^verbatim>\<open>gst_native_surface_init\<close> on a live session, up to the readiness check.\<close>

definition surface_install :: "platform \<Rightarrow> jobject \<Rightarrow> GstAhc \<Rightarrow> GstAhc \<times> call list" where
  "surface_install P surface ahc0 =
     (let released =
            (if native_window ahc0 \<noteq> None
             then [ANativeWindow_release (native_window ahc0)] else []);
          ahc1 = ahc0\<lparr>native_window := window_of P surface\<rparr>;
          bound =
            (if vsink ahc1 \<noteq> None
             then [Gst_video_overlay_set_window_handle (vsink ahc1) (native_window ahc1)]
             else [])
      in (ahc1, released @ [ANativeWindow_fromSurface surface] @ bound))"

text \<open>
  \<^verbatim>\<open>app_function\<close> before its main loop, in parts: the elements and the pipeline
  (lines 203 to 217), and the bus and the main loop (lines 226 to 241). Between the two
  the worker reads \<^verbatim>\<open>native_window\<close> (lines 219 and 222) and, when it is not null,
  calls the video sink with the value read (line 221); after them comes the readiness
  check.
\<close>

definition app_function_elements :: "platform \<Rightarrow> GstAhc \<Rightarrow> GstAhc \<times> call list" where
  "app_function_elements P ahc0 =
     (let ahc1 = ahc0\<lparr>ahcsrc := element_of P ''ahcsrc''\<rparr>;
          ahc2 = ahc1\<lparr>vsink := element_of P ''glimagesink''\<rparr>;
          ahc3 = ahc2\<lparr>filter_elem := element_of P ''capsfilter''\<rparr>;
          ahc4 = ahc3\<lparr>pipeline := element_of P ''camera-pipeline''\<rparr>
      in (ahc4,
          [G_main_context_new,
           Gst_element_factory_make ''ahcsrc'',
           Gst_element_factory_make ''glimagesink'',
           Gst_element_factory_make ''capsfilter'',
           Gst_pipeline_new ''camera-pipeline'',
           Gst_bin_add_many (pipeline ahc4) [ahcsrc ahc4, filter_elem ahc4, vsink ahc4],
           Gst_element_link_many [ahcsrc ahc4, filter_elem ahc4, vsink ahc4]]))"

definition app_function_loop :: "platform \<Rightarrow> GstAhc \<Rightarrow> GstAhc \<times> call list" where
  "app_function_loop P ahc =
     (ahc\<lparr>main_loop := Some (loop_of P)\<rparr>,
      [G_signal_connect ''message::error'',
       G_signal_connect ''message::eos'',
       G_signal_connect ''message::state-changed'',
       G_main_loop_new])"

text \<open>
  The two threads share the session. Each has what it has read and not yet used: whether
  its test of the readiness check has passed (it is between line 177 and line 181), and,
  for the worker, the window it has read for the pending call of line 221.
\<close>

datatype thread = Host_thread | Worker_thread

record machine =
  session :: "GstAhc option"
  host_passed :: bool
  worker_passed :: bool
  seen :: "window option"


fun passed :: "machine \<Rightarrow> thread \<Rightarrow> bool" where
  "passed m Host_thread = host_passed m"
| "passed m Worker_thread = worker_passed m"

fun set_passed :: "thread \<Rightarrow> bool \<Rightarrow> machine \<Rightarrow> machine" where
  "set_passed Host_thread b m = m\<lparr>host_passed := b\<rparr>"
| "set_passed Worker_thread b m = m\<lparr>worker_passed := b\<rparr>"

text \<open>
  What a thread runs without the other in between: a whole function, one of the parts
  above, the readiness check as a whole (\<open>Check\<close>) or one of its two parts.
\<close>

datatype segment =
    Whole action
  | Surface_install jobject
  | App_elements
  | App_read_window
  | App_bind_window
  | App_loop
  | Check
  | Check_test thread
  | Check_notify thread

fun on_session :: "(GstAhc \<Rightarrow> GstAhc \<times> call list) \<Rightarrow> machine \<Rightarrow> machine \<times> call list" where
  "on_session f m =
     (case session m of
        None \<Rightarrow> (m, [])
      | Some ahc \<Rightarrow> (m\<lparr>session := Some (fst (f ahc))\<rparr>, snd (f ahc)))"

fun seg_step :: "platform \<Rightarrow> segment \<Rightarrow> machine \<Rightarrow> machine \<times> call list" where
  "seg_step P (Whole x) m =
     (m\<lparr>session := fst (step P x (session m))\<rparr>, snd (step P x (session m)))"
| "seg_step P (Surface_install surface) m = on_session (surface_install P surface) m"
| "seg_step P App_elements m = on_session (app_function_elements P) m"
| "seg_step P App_read_window m =
     (case session m of
        None \<Rightarrow> (m, [])
      | Some ahc \<Rightarrow> (m\<lparr>seen := native_window ahc\<rparr>, []))"
| "seg_step P App_bind_window m =
     (case session m of
        None \<Rightarrow> (m, [])
      | Some ahc \<Rightarrow>
          (m\<lparr>seen := None\<rparr>,
           if seen m \<noteq> None
           then [Gst_video_overlay_set_window_handle (vsink ahc) (seen m)] else []))"
| "seg_step P App_loop m = on_session (app_function_loop P) m"
| "seg_step P Check m = on_session (check_initialization_complete P) m"
| "seg_step P (Check_test t) m =
     (case session m of
        None \<Rightarrow> (m, [])
      | Some ahc \<Rightarrow> (set_passed t (check_test ahc) m, []))"
| "seg_step P (Check_notify t) m =
     (if passed m t then on_session (check_notify P) (set_passed t False m) else (m, []))"

fun seg_run :: "platform \<Rightarrow> segment list \<Rightarrow> machine \<Rightarrow> machine \<times> call list" where
  "seg_run P [] m = (m, [])"
| "seg_run P (x # xs) m =
     (let (m1, calls1) = seg_step P x m;
          (m2, calls2) = seg_run P xs m1
      in (m2, calls1 @ calls2))"



fun announces :: "action \<Rightarrow> GstAhc \<Rightarrow> GstState \<Rightarrow> bool" where
  "announces (Bus (State_changed src old new pending)) ahc s = (src = pipeline ahc \<and> new = s)"
| "announces x ahc s = False"

subsection \<open>What the libraries do with the calls\<close>

text \<open>
  The libraries are not part of the program; the following records the part of their
  contracts that the properties below depend on.

  The GLib, GObject and GStreamer entry points test their instance argument first
  (\<^verbatim>\<open>g_return_if_fail\<close>, \<^verbatim>\<open>g_return_val_if_fail\<close>) and return at once, with a logged
  warning, when it is \<^verbatim>\<open>NULL\<close>: such a call reaches no object. The NDK's
  \<^verbatim>\<open>ANativeWindow_release\<close> has no such test and dereferences its argument.
\<close>

fun reaches_object :: "call \<Rightarrow> bool" where
  "reaches_object (Gst_element_set_state None s) = False"
| "reaches_object (Gst_video_overlay_set_window_handle None w) = False"
| "reaches_object (G_object_set_caps None c) = False"
| "reaches_object (G_object_set_wb_mode None m) = False"
| "reaches_object (Gst_photography_set_autofocus None b) = False"
| "reaches_object (G_object_set_rotate_method None m) = False"
| "reaches_object (G_main_loop_quit None) = False"
| "reaches_object (G_main_loop_unref None) = False"
| "reaches_object (Gst_object_unref None) = False"
| "reaches_object (Gst_bin_add_many None es) = False"
| "reaches_object (DeleteGlobalRef None) = False"
| "reaches_object c = True"

fun faults :: "call \<Rightarrow> bool" where
  "faults (ANativeWindow_release None) = True"
| "faults c = False"

text \<open>
  Where the worker thread is: before its main loop exists, inside
  \<^verbatim>\<open>g_main_loop_run\<close>, asked to quit, returned from \<^verbatim>\<open>app_function\<close>, or joined.
  \<^verbatim>\<open>g_main_loop_quit\<close> on the running loop makes \<^verbatim>\<open>g_main_loop_run\<close> return;
  \<^verbatim>\<open>pthread_join\<close> returns once the thread has returned, waits for ever on a thread
  that stays in its loop, and is undefined on a thread already joined.
\<close>

datatype worker = Starting | Looping | Quitting | Exited | Joined

datatype outcome = Returns worker | Blocks | Undefined

fun lib_call :: "worker \<Rightarrow> call \<Rightarrow> outcome" where
  "lib_call w (G_main_loop_quit (Some l)) = Returns (if w = Looping then Quitting else w)"
| "lib_call w Pthread_join =
     (case w of
        Starting \<Rightarrow> Blocks
      | Looping \<Rightarrow> Blocks
      | Quitting \<Rightarrow> Returns Joined
      | Exited \<Rightarrow> Returns Joined
      | Joined \<Rightarrow> Undefined)"
| "lib_call w c = (if faults c then Undefined else Returns w)"

fun lib_run :: "worker \<Rightarrow> call list \<Rightarrow> outcome" where
  "lib_run w [] = Returns w"
| "lib_run w (c # cs) =
     (case lib_call w c of
        Returns w' \<Rightarrow> lib_run w' cs
      | Blocks \<Rightarrow> Blocks
      | Undefined \<Rightarrow> Undefined)"

subsection \<open>Reading a list of calls\<close>

text \<open>
  \<open>after x xs\<close> is what follows the first \<open>x\<close> in \<open>xs\<close>, and \<open>precedes x y xs\<close> says
  that \<open>y\<close> occurs there: some \<open>y\<close> comes later than the first \<open>x\<close>.
\<close>

definition after :: "'a \<Rightarrow> 'a list \<Rightarrow> 'a list" where
  "after x xs = drop 1 (dropWhile (\<lambda>z. z \<noteq> x) xs)"

definition precedes :: "'a \<Rightarrow> 'a \<Rightarrow> 'a list \<Rightarrow> bool" where
  "precedes x y xs = (y \<in> set (after x xs))"






subsection \<open>Concrete platforms and sessions\<close>

text \<open>
  A platform on which surface 0 has no window, every factory succeeds and no callback
  throws; the same platform with \<^verbatim>\<open>pthread_create\<close> returning \<^verbatim>\<open>EAGAIN\<close>; the session
  as \<^verbatim>\<open>gst_native_init\<close> leaves it; and a session that is streaming.
\<close>

definition emulator :: platform where
  "emulator =
     \<lparr>window_of = (\<lambda>surface. if surface = 0 then None else Some (100 + surface)),
      element_of = (\<lambda>name. Some (length name)),
      loop_of = 9,
      throws = (\<lambda>c. False),
      thread_rc = 0\<rparr>"

definition no_threads :: platform where
  "no_threads = emulator\<lparr>thread_rc := 11\<rparr>"

definition fresh :: GstAhc where
  "fresh = g_malloc0\<lparr>app := Some 7\<rparr>"

definition streaming :: GstAhc where
  "streaming =
     \<lparr>app = Some 7, pipeline = Some 15, main_loop = Some 9, native_window = Some 101,
      state = GST_STATE_PLAYING, ahcsrc = Some 6, filter_elem = Some 10, vsink = Some 11,
      initialized = True\<rparr>"

section \<open>Properties\<close>

subsection \<open>Auxiliary facts\<close>

lemmas native_defs =
  gst_native_finalize_def gst_native_play_def gst_native_pause_def
  gst_native_surface_init_def gst_native_surface_finalize_def
  gst_native_change_resolution_def gst_native_set_rotate_method_def
  gst_native_set_white_balance_def gst_native_set_auto_focus_def

lemmas worker_defs =
  app_function_setup_def on_error_def eos_cb_def state_changed_cb_def



lemma surface_init_live:
  "gst_native_surface_init P surface (Some ahc) =
     (Some (fst (check_initialization_complete P (ahc\<lparr>native_window := window_of P surface\<rparr>))),
      (if native_window ahc \<noteq> None then [ANativeWindow_release (native_window ahc)] else [])
      @ [ANativeWindow_fromSurface surface]
      @ (if vsink ahc \<noteq> None
         then [Gst_video_overlay_set_window_handle (vsink ahc) (window_of P surface)] else [])
      @ snd (check_initialization_complete P (ahc\<lparr>native_window := window_of P surface\<rparr>)))"
  by (simp add: gst_native_surface_init_def case_prod_beta Let_def)



text \<open>The functions are their parts, one after the other.\<close>

lemma check_in_parts:
  "check_initialization_complete P data
     = (if check_test data then check_notify P data else (data, []))"
  by (simp add: check_initialization_complete_def check_test_def check_notify_def)

lemma surface_init_in_parts:
  "gst_native_surface_init P surface (Some ahc)
     = (Some (fst (check_initialization_complete P (fst (surface_install P surface ahc)))),
        snd (surface_install P surface ahc)
        @ snd (check_initialization_complete P (fst (surface_install P surface ahc))))"
  by (simp add: gst_native_surface_init_def surface_install_def case_prod_beta Let_def)

lemma setup_in_parts:
  "app_function_setup P ahc
     = (let ahc4 = fst (app_function_elements P ahc);
            ahc5 = fst (app_function_loop P ahc4)
        in (fst (check_initialization_complete P ahc5),
            snd (app_function_elements P ahc)
            @ (if native_window ahc4 \<noteq> None
               then [Gst_video_overlay_set_window_handle (vsink ahc4) (native_window ahc4)]
               else [])
            @ snd (app_function_loop P ahc4)
            @ snd (check_initialization_complete P ahc5)))"
  by (simp add: app_function_setup_def app_function_elements_def app_function_loop_def
      case_prod_beta Let_def)

lemma step_none: "step P x None = (None, [])"
proof (cases x)
  case (Host c)
  then show ?thesis by (cases c) (simp_all add: native_defs)
qed simp_all

text \<open>
  A schedule that runs the parts of a function without the other thread in between is
  the function run as a whole.
\<close>

lemma schedule_surface_init:
  "seg_run P [Surface_install surface, Check] m
     = seg_step P (Whole (Host (NativeSurfaceInit surface))) m"
proof (cases "session m")
  case None
  then show ?thesis by (simp add: gst_native_surface_init_def)
next
  case (Some ahc)
  then show ?thesis by (simp add: surface_init_in_parts)
qed

lemma schedule_setup:
  "seen m = None \<Longrightarrow>
   seg_run P [App_elements, App_read_window, App_bind_window, App_loop, Check] m
     = seg_step P (Whole Worker_setup) m"
  by (cases "session m")
    (simp_all add: setup_in_parts Let_def app_function_elements_def app_function_loop_def)

lemma schedule_check:
  "\<not> passed m t \<Longrightarrow> seg_run P [Check_test t, Check_notify t] m = seg_step P Check m"
  by (cases "session m"; cases t; cases "check_test (the (session m))")
    (simp_all add: check_in_parts)















subsection \<open>The claims\<close>

text \<open>
  C1, as claimed, fails. Handling an error message on a streaming session, the call of
  the host's \<^verbatim>\<open>onError\<close> is the first call made and the request for
  \<^verbatim>\<open>GST_STATE_NULL\<close> the last: the stop does not come before the notification, and
  the recorded state is still \<^verbatim>\<open>GST_STATE_PLAYING\<close> when the handler is done.
\<close>

theorem error_notified_before_stop_counterexample:
  "snd (on_error emulator ''ahcsrc'' ''boom'' streaming) =
     [CallOnError ''Error received from element ahcsrc: boom'',
      Gst_element_set_state (Some 15) GST_STATE_NULL]
   \<and> \<not> precedes (Gst_element_set_state (Some 15) GST_STATE_NULL)
         (CallOnError ''Error received from element ahcsrc: boom'')
         (snd (on_error emulator ''ahcsrc'' ''boom'' streaming))
   \<and> state (fst (on_error emulator ''ahcsrc'' ''boom'' streaming)) = GST_STATE_PLAYING"
  by (simp add: on_error_def emulator_def streaming_def precedes_def after_def)

text \<open>
  C1, amended. \<^verbatim>\<open>on_error\<close> first calls the host's \<^verbatim>\<open>onError\<close> with the message
  text and only as its last call sets the pipeline to \<^verbatim>\<open>GST_STATE_NULL\<close>; it leaves
  the structure, the recorded state included, as it was. Of all the functions of the
  program, run on a live session, the only one that calls \<^verbatim>\<open>onStateChanged\<close> or
  changes the recorded state is the handler of a state-changed message that comes from
  the pipeline itself; it records and reports the state the message announces, so the
  null state when the message says so. A message of any other source, an error, an end of
  stream, the worker's set-up and tear-down and every call of the host leave both alone.
\<close>

theorem error_notifies_then_stops:
  "fst (on_error P src err ahc) = ahc
   \<and> hd (snd (on_error P src err ahc))
       = CallOnError (''Error received from element '' @ src @ '': '' @ err)
   \<and> last (snd (on_error P src err ahc)) = Gst_element_set_state (pipeline ahc) GST_STATE_NULL
   \<and> precedes (CallOnError (''Error received from element '' @ src @ '': '' @ err))
        (Gst_element_set_state (pipeline ahc) GST_STATE_NULL) (snd (on_error P src err ahc))
   \<and> \<not> precedes (Gst_element_set_state (pipeline ahc) GST_STATE_NULL)
        (CallOnError (''Error received from element '' @ src @ '': '' @ err))
        (snd (on_error P src err ahc))
   \<and> (CallOnStateChanged s \<in> set (snd (step P x (Some ahc))) \<longleftrightarrow> announces x ahc s)
   \<and> (fst (step P x (Some ahc)) = Some ahc' \<and> state ahc' \<noteq> state ahc
        \<longrightarrow> announces x ahc (state ahc'))
   \<and> (announces x ahc s \<longrightarrow> fst (step P x (Some ahc)) = Some (ahc\<lparr>state := s\<rparr>))
   \<and> step P x None = (None, [])"
proof -
  have order: "fst (on_error P src err ahc) = ahc
   \<and> hd (snd (on_error P src err ahc))
       = CallOnError (''Error received from element '' @ src @ '': '' @ err)
   \<and> last (snd (on_error P src err ahc)) = Gst_element_set_state (pipeline ahc) GST_STATE_NULL
   \<and> precedes (CallOnError (''Error received from element '' @ src @ '': '' @ err))
        (Gst_element_set_state (pipeline ahc) GST_STATE_NULL) (snd (on_error P src err ahc))
   \<and> \<not> precedes (Gst_element_set_state (pipeline ahc) GST_STATE_NULL)
        (CallOnError (''Error received from element '' @ src @ '': '' @ err))
        (snd (on_error P src err ahc))"
    by (simp add: on_error_def precedes_def after_def Let_def)
  have silent: "CallOnStateChanged s \<notin> set (snd (check_initialization_complete P d))" for d
    by (simp add: check_initialization_complete_def)
  have kept: "state (fst (check_initialization_complete P d)) = state d" for d
    by (simp add: check_initialization_complete_def)
  have only: "(CallOnStateChanged s \<in> set (snd (step P x (Some ahc))) \<longleftrightarrow> announces x ahc s)
   \<and> (fst (step P x (Some ahc)) = Some ahc' \<and> state ahc' \<noteq> state ahc
        \<longrightarrow> announces x ahc (state ahc'))
   \<and> (announces x ahc s \<longrightarrow> fst (step P x (Some ahc)) = Some (ahc\<lparr>state := s\<rparr>))"
  proof (cases x)
    case (Host c)
    show ?thesis
    proof (cases c)
      case (NativeSurfaceInit surface)
      with Host show ?thesis
        by (auto simp add: surface_init_live silent kept)
    qed (use Host in \<open>auto simp add: native_defs\<close>)
  next
    case Worker_setup
    then show ?thesis
      by (auto simp add: setup_in_parts Let_def silent kept
          app_function_elements_def app_function_loop_def)
  next
    case (Bus msg)
    then show ?thesis
      by (cases msg) (auto simp add: worker_defs Let_def)
  next
    case Worker_teardown
    then show ?thesis by (auto simp add: app_function_teardown_def)
  qed
  from order only step_none [of P x] show ?thesis by blast
qed

theorem error_notifies_then_stops_witness:
  "announces (Bus (State_changed (Some 15) GST_STATE_PLAYING GST_STATE_NULL GST_STATE_VOID_PENDING))
     streaming GST_STATE_NULL
   \<and> step emulator
       (Bus (State_changed (Some 15) GST_STATE_PLAYING GST_STATE_NULL GST_STATE_VOID_PENDING))
       (Some streaming)
       = (Some (streaming\<lparr>state := GST_STATE_NULL\<rparr>), [CallOnStateChanged GST_STATE_NULL])
   \<and> state (streaming\<lparr>state := GST_STATE_NULL\<rparr>) \<noteq> state streaming
   \<and> \<not> announces (Bus (State_changed (Some 11) GST_STATE_PLAYING GST_STATE_NULL GST_STATE_VOID_PENDING))
       streaming GST_STATE_NULL
   \<and> CallOnStateChanged GST_STATE_NULL \<notin> set (snd (step emulator
       (Bus (State_changed (Some 11) GST_STATE_PLAYING GST_STATE_NULL GST_STATE_VOID_PENDING))
       (Some streaming)))"
proof -
  have s: "step emulator
       (Bus (State_changed (Some 15) GST_STATE_PLAYING GST_STATE_NULL GST_STATE_VOID_PENDING))
       (Some streaming)
       = (Some (streaming\<lparr>state := GST_STATE_NULL\<rparr>), [CallOnStateChanged GST_STATE_NULL])"
    by (simp add: state_changed_cb_def streaming_def emulator_def)
  have d: "state (streaming\<lparr>state := GST_STATE_NULL\<rparr>) \<noteq> state streaming"
    by (simp add: streaming_def)
  have p: "pipeline streaming = Some 15" by (simp add: streaming_def)
  from error_notifies_then_stops [of emulator "''ahcsrc''" "''boom''" streaming GST_STATE_NULL
      "Bus (State_changed (Some 15) GST_STATE_PLAYING GST_STATE_NULL GST_STATE_VOID_PENDING)"
      "streaming\<lparr>state := GST_STATE_NULL\<rparr>"]
    error_notifies_then_stops [of emulator "''ahcsrc''" "''boom''" streaming GST_STATE_NULL
      "Bus (State_changed (Some 11) GST_STATE_PLAYING GST_STATE_NULL GST_STATE_VOID_PENDING)"
      "streaming\<lparr>state := GST_STATE_NULL\<rparr>"]
    s d p
  show ?thesis by simp
qed




text \<open>
  C3. While the session has no pipeline, any sequence of play and pause calls leaves
  the structure as it was; each call passes the null pipeline pointer to
  \<^verbatim>\<open>gst_element_set_state\<close>, which reaches no object, and every call returns.
\<close>

theorem play_pause_before_pipeline:
  assumes "pipeline data = None" and "set cs \<subseteq> {NativePlay, NativePause}"
  shows "run P (map Host cs) (Some data) =
           (Some data,
            map (\<lambda>c. Gst_element_set_state None
                        (if c = NativePlay then GST_STATE_PLAYING else GST_STATE_PAUSED)) cs)
         \<and> list_all (\<lambda>c. \<not> reaches_object c) (snd (run P (map Host cs) (Some data)))
         \<and> lib_run w (snd (run P (map Host cs) (Some data))) = Returns w"
proof -
  let ?req = "\<lambda>c. Gst_element_set_state None
                    (if c = NativePlay then GST_STATE_PLAYING else GST_STATE_PAUSED)"
  from assms have trace: "run P (map Host cs) (Some data) = (Some data, map ?req cs)"
  proof (induction cs)
    case Nil
    show ?case by simp
  next
    case (Cons c cs)
    then have "c = NativePlay \<or> c = NativePause" by simp
    with Cons show ?case
      by (auto simp add: gst_native_play_def gst_native_pause_def)
  qed
  have unreached: "list_all (\<lambda>c. \<not> reaches_object c) (map ?req cs)"
    by (induction cs) simp_all
  have returns: "lib_run w (map ?req cs) = Returns w"
    by (induction cs) simp_all
  from trace unreached returns show ?thesis by simp
qed

theorem play_pause_before_pipeline_witness:
  "pipeline fresh = None
   \<and> set [NativePlay, NativePause, NativePlay] \<subseteq> {NativePlay, NativePause}
   \<and> run emulator (map Host [NativePlay, NativePause, NativePlay]) (Some fresh) =
       (Some fresh,
        [Gst_element_set_state None GST_STATE_PLAYING,
         Gst_element_set_state None GST_STATE_PAUSED,
         Gst_element_set_state None GST_STATE_PLAYING])
   \<and> lib_run Starting (snd (run emulator (map Host [NativePlay, NativePause, NativePlay]) (Some fresh)))
       = Returns Starting"
proof -
  have p: "pipeline fresh = None" by (simp add: fresh_def g_malloc0_def)
  have s: "set [NativePlay, NativePause, NativePlay] \<subseteq> {NativePlay, NativePause}" by simp
  from play_pause_before_pipeline [OF p s, of emulator Starting] p s show ?thesis by simp
qed







text \<open>
  C6, as claimed, fails: with \<^verbatim>\<open>pthread_create\<close> returning an error,
  \<^verbatim>\<open>gst_native_init\<close> hands the caller the same session and makes the same calls as
  when the thread was created.
\<close>

theorem init_thread_failure_counterexample:
  "thread_rc no_threads \<noteq> 0
   \<and> gst_native_init no_threads 7 = (Some fresh, [NewGlobalRef 7, Pthread_create])
   \<and> gst_native_init no_threads 7 = gst_native_init emulator 7"
  by (simp add: no_threads_def emulator_def gst_native_init_def fresh_def)

text \<open>
  C6, amended. \<^verbatim>\<open>gst_native_init\<close> stores a zeroed session holding the reference to
  the host object in the field, asks for the worker thread and returns; the return code
  of \<^verbatim>\<open>pthread_create\<close> has no influence on what it hands back.
\<close>

theorem init_returns_session:
  "gst_native_init P thiz = (Some (g_malloc0\<lparr>app := Some thiz\<rparr>), [NewGlobalRef thiz, Pthread_create])
   \<and> gst_native_init (P\<lparr>thread_rc := rc\<rparr>) thiz = gst_native_init P thiz"
  by (simp add: gst_native_init_def)

text \<open>
  C7. On a live session each of the three parameter setters makes one call, on the
  stage it belongs to (white balance and autofocus on the camera source, rotation on the
  video sink), asks for no state change and leaves the structure as it was. The call
  returns whatever the worker does; when the stage does not exist yet, the call carries a
  null instance and reaches no object.
\<close>

theorem set_parameter_forwarded:
  "native P (NativeSetWhiteBalance m) (Some ahc) = (Some ahc, [G_object_set_wb_mode (ahcsrc ahc) m])
   \<and> native P (NativeSetAutoFocus b) (Some ahc) = (Some ahc, [Gst_photography_set_autofocus (ahcsrc ahc) b])
   \<and> native P (NativeSetRotateMethod r) (Some ahc) = (Some ahc, [G_object_set_rotate_method (vsink ahc) r])
   \<and> (\<forall>c \<in> {NativeSetWhiteBalance m, NativeSetAutoFocus b, NativeSetRotateMethod r}.
        lib_run w (snd (native P c (Some ahc))) = Returns w)
   \<and> (ahcsrc ahc = None \<longrightarrow>
        \<not> reaches_object (G_object_set_wb_mode (ahcsrc ahc) m)
        \<and> \<not> reaches_object (Gst_photography_set_autofocus (ahcsrc ahc) b))
   \<and> (vsink ahc = None \<longrightarrow> \<not> reaches_object (G_object_set_rotate_method (vsink ahc) r))"
  by (simp add: gst_native_set_white_balance_def gst_native_set_auto_focus_def
      gst_native_set_rotate_method_def)

theorem set_parameter_forwarded_witness:
  "ahcsrc fresh = None \<and> vsink fresh = None
   \<and> native emulator (NativeSetWhiteBalance 3) (Some fresh) = (Some fresh, [G_object_set_wb_mode None 3])
   \<and> native emulator (NativeSetAutoFocus True) (Some fresh) = (Some fresh, [Gst_photography_set_autofocus None True])
   \<and> native emulator (NativeSetRotateMethod 1) (Some fresh) = (Some fresh, [G_object_set_rotate_method None 1])
   \<and> lib_run Starting (snd (native emulator (NativeSetRotateMethod 1) (Some fresh))) = Returns Starting
   \<and> \<not> reaches_object (G_object_set_wb_mode None 3)"
  using set_parameter_forwarded [of emulator 3 fresh True 1 Starting]
  by (simp add: fresh_def g_malloc0_def)

text \<open>
  C8, as claimed, fails. On a streaming session that holds window 101, bound to the
  video sink, \<^verbatim>\<open>gst_native_surface_init\<close> with a surface that has no window releases
  window 101, leaves the session without a window and hands the null window to the sink.
\<close>

theorem invalid_surface_counterexample:
  "window_of emulator 0 = None
   \<and> native_window streaming = Some 101 \<and> vsink streaming = Some 11
   \<and> gst_native_surface_init emulator 0 (Some streaming) =
       (Some (streaming\<lparr>native_window := None\<rparr>),
        [ANativeWindow_release (Some 101),
         ANativeWindow_fromSurface 0,
         Gst_video_overlay_set_window_handle (Some 11) None])"
  by (simp add: gst_native_surface_init_def check_initialization_complete_def
      emulator_def streaming_def)

text \<open>
  C8, amended. When the surface has no window, \<^verbatim>\<open>gst_native_surface_init\<close> on a live
  session releases the window held before, if there is one, asks for the window of the
  surface, stores the null result in the session and, if the video sink exists, hands
  the null window to it; no other call is made.
\<close>

theorem invalid_surface_drops_previous:
  assumes "window_of P surface = None"
  shows "gst_native_surface_init P surface (Some ahc) =
           (Some (ahc\<lparr>native_window := None\<rparr>),
            (if native_window ahc \<noteq> None then [ANativeWindow_release (native_window ahc)] else [])
            @ [ANativeWindow_fromSurface surface]
            @ (if vsink ahc \<noteq> None
               then [Gst_video_overlay_set_window_handle (vsink ahc) None] else []))"
  using assms
  by (simp add: gst_native_surface_init_def check_initialization_complete_def)

theorem invalid_surface_drops_previous_witness:
  "window_of emulator 0 = None
   \<and> fst (gst_native_surface_init emulator 0 (Some streaming))
       = Some (streaming\<lparr>native_window := None\<rparr>)
   \<and> ANativeWindow_release (Some 101) \<in> set (snd (gst_native_surface_init emulator 0 (Some streaming)))"
proof -
  have h: "window_of emulator 0 = None" by (simp add: emulator_def)
  from invalid_surface_drops_previous [OF h, of streaming] h show ?thesis
    by (simp add: streaming_def)
qed

text \<open>
  C9. On a live session, \<^verbatim>\<open>gst_native_change_resolution\<close> makes exactly three calls,
  in this order: the pipeline is asked for \<^verbatim>\<open>GST_STATE_READY\<close>, the caps filter gets
  caps with the given width and height, the pipeline is asked for
  \<^verbatim>\<open>GST_STATE_PAUSED\<close>. The structure is left as it was.
\<close>

theorem change_resolution_steps:
  "native P (NativeChangeResolution w h) (Some ahc) =
     (Some ahc,
      [Gst_element_set_state (pipeline ahc) GST_STATE_READY,
       G_object_set_caps (filter_elem ahc) \<lparr>media_type = ''video/x-raw'', width = w, height = h\<rparr>,
       Gst_element_set_state (pipeline ahc) GST_STATE_PAUSED])"
  by (simp add: gst_native_change_resolution_def)

text \<open>
  C10. \<^verbatim>\<open>gst_native_finalize\<close> on a live session leaves the host field null, and on a
  null field every native method returns at once: the field stays null and no call is
  made, so this holds for every run of host calls after the finalize.
\<close>

theorem after_finalize_all_noop:
  "fst (gst_native_finalize (Some data)) = None
   \<and> native P c None = (None, [])
   \<and> run P (map Host cs) (fst (gst_native_finalize (Some data))) = (None, [])"
proof -
  have fin: "fst (gst_native_finalize (Some data)) = None"
    by (simp add: gst_native_finalize_def)
  have one: "native P c None = (None, [])" for c
    by (cases c)
      (simp_all add: gst_native_finalize_def gst_native_play_def gst_native_pause_def
        gst_native_surface_init_def gst_native_surface_finalize_def
        gst_native_change_resolution_def gst_native_set_rotate_method_def
        gst_native_set_white_balance_def gst_native_set_auto_focus_def)
  have many: "run P (map Host cs) None = (None, [])"
    by (induction cs) (simp_all add: one)
  from fin one many show ?thesis by simp
qed

end
